theory Spec2Isabelle
  imports Main
begin

section \<open>Persistence model\<close>

text \<open>
  The relational store behind the routes, as the handlers use it: one list of rows per
  Prisma model, read with \<open>findFirst\<close> (\<^const>\<open>find\<close>) and \<open>findMany\<close>
  (\<^const>\<open>filter\<close>). Only the columns the handlers read or write are kept. The five
  profile models are keyed by the identity provider's user id. \<open>Enrollment.studentId\<close>
  holds the human-readable \<open>Student.StudentId\<close> (the seed script fills it so), while
  \<open>Fee.studentId\<close> holds \<open>Student.id\<close>. Queries are taken to succeed: a failing
  database call is outside this model.
\<close>

record student =
  student_id :: string
  student_username :: string
  student_name :: string
  student_StudentId :: string
  student_parentId :: "string option"

record teacher =
  teacher_id :: string
  teacher_username :: string
  teacher_name :: string

record parent =
  parent_id :: string
  parent_username :: string
  parent_name :: string

record admin =
  admin_id :: string
  admin_username :: string

record accountant =
  accountant_id :: string
  accountant_username :: string
  accountant_name :: string

record class_row =
  class_id :: int
  class_name :: string
  class_supervisorId :: "string option"

record lesson =
  lesson_id :: int
  lesson_classId :: int
  lesson_teacherId :: string

record enrollment =
  enrollment_studentId :: string
  enrollment_classId :: int
  enrollment_year :: int

datatype fee_status = UNPAID | PARTIAL | PAID | OVERDUE

record fee =
  fee_id :: int
  fee_studentId :: string
  fee_totalAmount :: int
  fee_paidAmount :: int
  fee_status :: fee_status
  fee_description :: string
  fee_dueDate :: nat
  fee_createdAt :: nat

record payment =
  payment_amount :: int
  payment_method :: string
  payment_reference :: string
  payment_feeId :: int

record database =
  students :: "student list"
  teachers :: "teacher list"
  parents :: "parent list"
  admins :: "admin list"
  accountants :: "accountant list"
  classes :: "class_row list"
  lessons :: "lesson list"
  enrollments :: "enrollment list"
  fees :: "fee list"
  payments :: "payment list"

section \<open>Requests, responses and JavaScript values\<close>

text \<open>
  A value that may be \<open>undefined\<close> is an \<open>option\<close>. JavaScript's truthiness test on
  such a string (\<open>if (x)\<close>, \<open>!x\<close>, \<open>x || y\<close>) fails for \<open>undefined\<close> and for the
  empty string.
\<close>

definition truthy :: "string option \<Rightarrow> bool" where
  "truthy v = (case v of None \<Rightarrow> False | Some s \<Rightarrow> s \<noteq> [])"

definition or_else :: "string option \<Rightarrow> string \<Rightarrow> string" where
  "or_else v d = (if truthy v then the v else d)"

text \<open>\<open>String.prototype.toLowerCase\<close> on the ASCII letters; other bytes are kept.\<close>

definition lower_char :: "char \<Rightarrow> char" where
  "lower_char c =
     (let n = (of_char c :: nat)
      in if 65 \<le> n \<and> n \<le> 90 then char_of (n + 32) else c)"

definition toLowerCase :: "string \<Rightarrow> string" where
  "toLowerCase s = map lower_char s"

text \<open>
  The profile a request carries after resolution: a row of one of the five profile
  models, or the temporary object built from the identity provider's user (with an
  \<open>id\<close> only for the student role).
\<close>

record temp_profile =
  temp_id :: "string option"
  temp_username :: string
  temp_name :: string
  temp_email :: "string option"

datatype profile =
    StudentRow student
  | TeacherRow teacher
  | ParentRow parent
  | AdminRow admin
  | AccountantRow accountant
  | Temporary temp_profile

text \<open>
  \<open>AuthenticatedRequest\<close>: the authorization header and the fields the middleware
  attaches to the request object.
\<close>

record request =
  req_authorization :: "string option"
  req_userId :: "string option"
  req_userRole :: "string option"
  req_userEmail :: "string option"
  req_signInId :: "string option"
  req_userProfile :: "profile option"

text \<open>
  A middleware either answers the request (\<open>res.status(n).json({error: msg})\<close>) or
  hands the updated request on (\<open>next()\<close>).
\<close>

datatype outcome = Reply nat string | Next request

section \<open>Identity provider\<close>

record clerk_user =
  clerk_id :: string
  clerk_fullName :: "string option"
  clerk_firstName :: "string option"
  clerk_emailAddresses :: "string list"
  clerk_primaryEmailAddress :: "string option"
  clerk_imageUrl :: string
  clerk_publicRole :: "string option"

text \<open>An error thrown by the provider's SDK, with \<open>error.errors?.[0]?.code\<close>.\<close>

datatype clerk_error = ClerkError "string option"

section \<open>Profile resolution (\<open>getUserProfile\<close>)\<close>

definition valid_roles :: "string list" where
  "valid_roles = [''student'', ''teacher'', ''parent'', ''admin'', ''accountant'']"

definition attach :: "request \<Rightarrow> string \<Rightarrow> profile \<Rightarrow> outcome" where
  "attach req role p = Next (req\<lparr>req_userRole := Some role, req_userProfile := Some p\<rparr>)"

text \<open>
  The branch taken when no collection holds the id: the provider's public metadata is
  asked for a role. \<open>getUser\<close> is \<open>clerkClient.users.getUser\<close>, which throws or returns
  the user.
\<close>

definition clerk_fallback ::
  "(string \<Rightarrow> clerk_error + clerk_user) \<Rightarrow> database \<Rightarrow> request \<Rightarrow> string \<Rightarrow> outcome" where
  "clerk_fallback getUser db req uid =
     (case getUser uid of
        Inl e \<Rightarrow> Reply 500 ''Failed to verify user account. Please contact administrator.''
      | Inr clerkUser \<Rightarrow>
          (let publicRole = map_option toLowerCase (clerk_publicRole clerkUser);
               name = or_else (clerk_fullName clerkUser) (or_else (clerk_firstName clerkUser) ''User'')
           in if truthy publicRole \<and> the publicRole \<in> set valid_roles then
                (if the publicRole = ''student'' then
                   (case find (\<lambda>s. student_id s = uid) (students db) of
                      Some s \<Rightarrow> attach req (the publicRole) (StudentRow s)
                    | None \<Rightarrow>
                        attach req (the publicRole)
                          (Temporary \<lparr>temp_id = Some uid, temp_username = uid, temp_name = name,
                             temp_email = clerk_primaryEmailAddress clerkUser\<rparr>))
                 else
                   attach req (the publicRole)
                     (Temporary \<lparr>temp_id = None, temp_username = uid, temp_name = name,
                        temp_email = clerk_primaryEmailAddress clerkUser\<rparr>))
              else
                Reply 404
                  ''User not found in database. Please contact administrator to add your account.''))"

definition getUserProfile ::
  "(string \<Rightarrow> clerk_error + clerk_user) \<Rightarrow> database \<Rightarrow> request \<Rightarrow> outcome" where
  "getUserProfile getUser db req =
     (if \<not> truthy (req_userId req) then Reply 401 ''User ID not found''
      else
        (let uid = the (req_userId req);
             student = find (\<lambda>s. student_id s = uid) (students db);
             teacher = find (\<lambda>t. teacher_id t = uid) (teachers db);
             parent = find (\<lambda>p. parent_id p = uid) (parents db);
             admin = find (\<lambda>a. admin_id a = uid) (admins db);
             accountant = find (\<lambda>a. accountant_id a = uid) (accountants db)
         in case student of Some s \<Rightarrow> attach req ''student'' (StudentRow s)
            | None \<Rightarrow>
           (case teacher of Some t \<Rightarrow> attach req ''teacher'' (TeacherRow t)
            | None \<Rightarrow>
           (case parent of Some p \<Rightarrow> attach req ''parent'' (ParentRow p)
            | None \<Rightarrow>
           (case admin of Some a \<Rightarrow> attach req ''admin'' (AdminRow a)
            | None \<Rightarrow>
           (case accountant of Some a \<Rightarrow> attach req ''accountant'' (AccountantRow a)
            | None \<Rightarrow> clerk_fallback getUser db req uid))))))"

text \<open>
  For the statement of the lookup order: whether the collection of a role holds a row
  with the given id, and the row as a profile.
\<close>

definition lookup_role :: "database \<Rightarrow> string \<Rightarrow> string \<Rightarrow> profile option" where
  "lookup_role db uid role =
     (if role = ''student'' then map_option StudentRow (find (\<lambda>s. student_id s = uid) (students db))
      else if role = ''teacher'' then map_option TeacherRow (find (\<lambda>t. teacher_id t = uid) (teachers db))
      else if role = ''parent'' then map_option ParentRow (find (\<lambda>p. parent_id p = uid) (parents db))
      else if role = ''admin'' then map_option AdminRow (find (\<lambda>a. admin_id a = uid) (admins db))
      else if role = ''accountant'' then
        map_option AccountantRow (find (\<lambda>a. accountant_id a = uid) (accountants db))
      else None)"

section \<open>Credential verification (\<open>requireAuth\<close>) and login\<close>

text \<open>
  The payload \<open>jwt.verify\<close> hands back, read \<open>as any\<close>: the four fields the middleware
  copies to the request.
\<close>

record jwt_payload =
  payload_userId :: "string option"
  payload_email :: "string option"
  payload_role :: "string option"
  payload_signInId :: "string option"

text \<open>\<open>process.env.JWT_SECRET || 'your-secret-key'\<close>\<close>

definition jwt_secret :: "string option \<Rightarrow> string" where
  "jwt_secret env_JWT_SECRET = or_else env_JWT_SECRET ''your-secret-key''"

text \<open>
  The two external verifiers are parameters: \<open>jwt_verify token secret\<close> is
  \<open>jwt.verify\<close> (\<open>None\<close> when it throws) and \<open>getAuth\<close> is the provider's
  \<open>getAuth(req)\<close>, which throws or returns a user id that may be null. The middleware
  returns with its outcome the external calls it made, in order. Both calls sit in
  their own \<open>try\<close> blocks; the outer handler, which answers 500, has no exception
  left to catch and is not part of the model.
\<close>

datatype auth_result = AuthThrows | AuthUser "string option"

datatype call = JwtVerify string | ClerkGetAuth

definition requireAuth ::
  "string option \<Rightarrow> (string \<Rightarrow> string \<Rightarrow> jwt_payload option) \<Rightarrow> (request \<Rightarrow> auth_result) \<Rightarrow>
     request \<Rightarrow> outcome \<times> call list" where
  "requireAuth env_JWT_SECRET jwt_verify getAuth req =
     (let authHeader = req_authorization req
      in if \<not> truthy authHeader \<or> take 7 (the authHeader) \<noteq> ''Bearer '' then
           (Reply 401 ''Authorization header required'', [])
         else
           (let token = drop 7 (the authHeader)
            in case jwt_verify token (jwt_secret env_JWT_SECRET) of
                 Some decoded \<Rightarrow>
                   (Next (req\<lparr>req_userId := payload_userId decoded,
                            req_userRole := payload_role decoded,
                            req_userEmail := payload_email decoded,
                            req_signInId := payload_signInId decoded\<rparr>),
                    [JwtVerify token])
               | None \<Rightarrow>
                   (case getAuth req of
                      AuthUser uid \<Rightarrow>
                        if \<not> truthy uid then
                          (Reply 401 ''Invalid token'', [JwtVerify token, ClerkGetAuth])
                        else (Next (req\<lparr>req_userId := uid\<rparr>), [JwtVerify token, ClerkGetAuth])
                    | AuthThrows \<Rightarrow>
                        (Reply 401 ''Invalid authentication token'',
                         [JwtVerify token, ClerkGetAuth]))))"

text \<open>
  \<open>requireRole(allowedRoles)\<close>, on the role the request carries: whether the request
  is handed on; otherwise the middleware answers 403.
\<close>

definition requireRole :: "string list \<Rightarrow> string option \<Rightarrow> bool" where
  "requireRole allowedRoles userRole = (truthy userRole \<and> the userRole \<in> set allowedRoles)"

text \<open>
  \<open>POST /login\<close>. \<open>getUserList\<close> and \<open>verifyPassword\<close> are the provider's calls
  (\<open>verifyPassword\<close> returns the error it throws, if any), \<open>jwt_sign payload secret\<close> is
  \<open>jwt.sign\<close> with the fixed expiry option.
\<close>

record login_body =
  body_email :: "string option"
  body_password :: "string option"

record login_user =
  login_id :: string
  login_name :: string
  login_email :: "string option"
  login_role :: string
  login_imageUrl :: string

datatype login_response = LoginError nat string | LoginOk string login_user

definition login_catch :: "clerk_error \<Rightarrow> login_response" where
  "login_catch e =
     (case e of ClerkError code \<Rightarrow>
        if code = Some ''user_not_found'' then LoginError 401 ''Invalid email or password''
        else if code = Some ''password_verification_failed'' then
          LoginError 401 ''Invalid email or password''
        else LoginError 500 ''Login failed'')"

definition jwtPayload :: "clerk_user \<Rightarrow> string \<Rightarrow> jwt_payload" where
  "jwtPayload user email =
     (let emailAddress = (case clerk_emailAddresses user of [] \<Rightarrow> None | a # _ \<Rightarrow> Some a);
          role = or_else (clerk_publicRole user) ''student''
      in \<lparr>payload_userId = Some (clerk_id user),
          payload_email = Some (or_else emailAddress email),
          payload_role = Some role,
          payload_signInId = None\<rparr>)"

definition login ::
  "string option \<Rightarrow> (jwt_payload \<Rightarrow> string \<Rightarrow> string) \<Rightarrow>
     (string \<Rightarrow> clerk_error + clerk_user list) \<Rightarrow> (string \<Rightarrow> string \<Rightarrow> clerk_error option) \<Rightarrow>
     login_body \<Rightarrow> login_response" where
  "login env_JWT_SECRET jwt_sign getUserList verifyPassword body =
     (if \<not> truthy (body_email body) \<or> \<not> truthy (body_password body) then
        LoginError 400 ''Email and password are required''
      else
        (let email = the (body_email body); password = the (body_password body)
         in case getUserList email of
              Inl e \<Rightarrow> login_catch e
            | Inr [] \<Rightarrow> LoginError 401 ''Invalid email or password''
            | Inr (user # _) \<Rightarrow>
                (case verifyPassword (clerk_id user) password of
                   Some passwordError \<Rightarrow> LoginError 401 ''Invalid email or password''
                 | None \<Rightarrow>
                     (let fullName =
                            or_else (clerk_fullName user) (or_else (clerk_firstName user) ''User'');
                          emailAddress =
                            (case clerk_emailAddresses user of [] \<Rightarrow> None | a # _ \<Rightarrow> Some a);
                          role = or_else (clerk_publicRole user) ''student'';
                          token = jwt_sign (jwtPayload user email) (jwt_secret env_JWT_SECRET)
                      in LoginOk token
                           \<lparr>login_id = clerk_id user, login_name = fullName,
                            login_email = emailAddress, login_role = role,
                            login_imageUrl = clerk_imageUrl user\<rparr>))))"

section \<open>Routes\<close>

text \<open>
  The handlers run after \<open>requireAuth\<close> and \<open>getUserProfile\<close>: they read
  \<open>req.userRole\<close> (here \<open>userRole\<close>), \<open>req.userProfile.id\<close> (here \<open>pid\<close>) and the query
  or the body. A query parameter is a string or absent. A temporary profile without an
  \<open>id\<close> is not covered by the route model.
  Of a response, the records it is built from are kept; their order (\<open>orderBy\<close>) and
  the relations joined in (\<open>include\<close>) are not.
\<close>

text \<open>\<open>prisma.student.findMany({ where: { parentId: userProfile.id } })\<close>\<close>

definition children :: "database \<Rightarrow> string \<Rightarrow> student list" where
  "children db pid = filter (\<lambda>s. student_parentId s = Some pid) (students db)"

subsection \<open>Fees router: \<open>GET /history\<close>\<close>

definition history_targetStudentIds ::
  "database \<Rightarrow> string option \<Rightarrow> string \<Rightarrow> string option \<Rightarrow> string list" where
  "history_targetStudentIds db userRole pid studentId =
     (if userRole = Some ''student'' then [pid]
      else if userRole = Some ''parent'' then map student_id (children db pid)
      else if userRole = Some ''admin'' \<or> userRole = Some ''accountant'' then
        (if truthy studentId then [the studentId] else map student_id (students db))
      else [])"

text \<open>
  The list the fee query filters on, \<open>studentId ? [studentId] : targetStudentIds\<close>, or
  \<open>None\<close> when \<open>targetStudentIds\<close> is empty and the handler answers with no fees before
  it queries.
\<close>

definition history_query_ids ::
  "database \<Rightarrow> string option \<Rightarrow> string \<Rightarrow> string option \<Rightarrow> string list option" where
  "history_query_ids db userRole pid studentId =
     (if history_targetStudentIds db userRole pid studentId = [] then None
      else Some (if truthy studentId then [the studentId]
                 else history_targetStudentIds db userRole pid studentId))"

definition get_history ::
  "database \<Rightarrow> string option \<Rightarrow> string \<Rightarrow> string option \<Rightarrow> fee list" where
  "get_history db userRole pid studentId =
     (case history_query_ids db userRole pid studentId of
        None \<Rightarrow> []
      | Some ids \<Rightarrow> filter (\<lambda>f. fee_studentId f \<in> set ids) (fees db))"

subsection \<open>Classes and their enrolled students\<close>

text \<open>
  \<open>cls.students\<close> (the enrollments of a class) and \<open>enrollment.student\<close> (the student
  an enrollment refers to, by \<open>StudentId\<close>).
\<close>

definition class_students :: "database \<Rightarrow> class_row \<Rightarrow> enrollment list" where
  "class_students db cls = filter (\<lambda>e. enrollment_classId e = class_id cls) (enrollments db)"

definition enrollment_student :: "database \<Rightarrow> enrollment \<Rightarrow> student option" where
  "enrollment_student db e =
     find (\<lambda>s. student_StudentId s = enrollment_studentId e) (students db)"

text \<open>\<open>prisma.class.findMany({ where: { supervisorId: userProfile.id } })\<close>\<close>

definition supervised_classes :: "database \<Rightarrow> string \<Rightarrow> class_row list" where
  "supervised_classes db pid = filter (\<lambda>c. class_supervisorId c = Some pid) (classes db)"

subsection \<open>Exams router: \<open>GET /results\<close>\<close>

definition results_targetStudentIds ::
  "database \<Rightarrow> string option \<Rightarrow> string \<Rightarrow> string option \<Rightarrow> string list" where
  "results_targetStudentIds db userRole pid studentId =
     (if userRole = Some ''student'' then [pid]
      else if userRole = Some ''parent'' then map student_id (children db pid)
      else if userRole = Some ''teacher'' then
        concat (map (\<lambda>cls.
            map the (filter truthy
              (map (\<lambda>enrollment. map_option student_id (enrollment_student db enrollment))
                 (class_students db cls))))
          (supervised_classes db pid))
      else if userRole = Some ''admin'' then
        (if truthy studentId then [the studentId] else map student_id (students db))
      else [])"

text \<open>The list the result query filters on, as in the fees router.\<close>

definition results_query_ids ::
  "database \<Rightarrow> string option \<Rightarrow> string \<Rightarrow> string option \<Rightarrow> string list option" where
  "results_query_ids db userRole pid studentId =
     (if results_targetStudentIds db userRole pid studentId = [] then None
      else Some (if truthy studentId then [the studentId]
                 else results_targetStudentIds db userRole pid studentId))"

subsection \<open>Attendance router: \<open>GET /summary\<close>\<close>

text \<open>This route takes no student id; its attendance query filters on the list itself.\<close>

definition summary_targetStudentIds :: "database \<Rightarrow> string option \<Rightarrow> string \<Rightarrow> string list" where
  "summary_targetStudentIds db userRole pid =
     (if userRole = Some ''student'' then [pid]
      else if userRole = Some ''parent'' then map student_id (children db pid)
      else if userRole = Some ''teacher'' then
        concat (map (\<lambda>cls. map enrollment_studentId (class_students db cls))
          (supervised_classes db pid))
      else if userRole = Some ''admin'' then map student_id (students db)
      else [])"

subsection \<open>Teachers router: \<open>GET /classes\<close>\<close>

text \<open>
  The classes the teacher supervises or holds a lesson in, each with the students of
  its enrollments.
\<close>

definition teacher_classes :: "database \<Rightarrow> string \<Rightarrow> class_row list" where
  "teacher_classes db tid =
     filter (\<lambda>c. class_supervisorId c = Some tid \<or>
                 list_ex (\<lambda>l. lesson_classId l = class_id c \<and> lesson_teacherId l = tid) (lessons db))
       (classes db)"

definition get_teacher_classes :: "database \<Rightarrow> string \<Rightarrow> (class_row \<times> student option list) list" where
  "get_teacher_classes db tid =
     map (\<lambda>c. (c, map (enrollment_student db) (class_students db c))) (teacher_classes db tid)"

subsection \<open>Fees router: \<open>POST /payment\<close>\<close>

text \<open>
  The body's \<open>amount\<close> is kept as what \<open>BigInt(amount)\<close> makes of it: an integer, or
  \<open>None\<close> when the conversion throws. Amounts are JavaScript BigInts, so unbounded.
  The route is guarded by \<open>requireRole(['student', 'parent'])\<close>. The id and the date
  the store gives a new payment are not kept.
\<close>

record payment_body =
  body_feeId :: int
  body_amount :: "int option"
  body_method :: string
  body_reference :: string

datatype payment_response = PaymentError nat string | PaymentOk payment fee_status

definition payment_fee ::
  "database \<Rightarrow> string option \<Rightarrow> string \<Rightarrow> int \<Rightarrow> fee option" where
  "payment_fee db userRole pid feeId =
     (if userRole = Some ''student'' then
        find (\<lambda>f. fee_id f = feeId \<and> fee_studentId f = pid) (fees db)
      else if userRole = Some ''parent'' then
        find (\<lambda>f. fee_id f = feeId \<and> fee_studentId f \<in> set (map student_id (children db pid)))
          (fees db)
      else None)"

definition post_payment ::
  "database \<Rightarrow> string option \<Rightarrow> string \<Rightarrow> payment_body \<Rightarrow> payment_response \<times> database" where
  "post_payment db userRole pid body =
     (if \<not> requireRole [''student'', ''parent''] userRole then
        (PaymentError 403 ''Insufficient permissions'', db)
      else
        (case payment_fee db userRole pid (body_feeId body) of
           None \<Rightarrow> (PaymentError 404 ''Fee not found or access denied'', db)
         | Some fee \<Rightarrow>
             (case body_amount body of
                None \<Rightarrow> (PaymentError 500 ''Failed to process payment'', db)
              | Some amount \<Rightarrow>
                  (let payment = \<lparr>payment_amount = amount, payment_method = body_method body,
                          payment_reference = body_reference body,
                          payment_feeId = body_feeId body\<rparr>;
                       db1 = db\<lparr>payments := payments db @ [payment]\<rparr>;
                       newPaidAmount = fee_paidAmount fee + amount;
                       newStatus = (if newPaidAmount \<ge> fee_totalAmount fee then PAID else PARTIAL);
                       db2 = db1\<lparr>fees :=
                               map (\<lambda>f. if fee_id f = body_feeId body
                                         then f\<lparr>fee_paidAmount := newPaidAmount, fee_status := newStatus\<rparr>
                                         else f)
                                 (fees db1)\<rparr>
                   in (PaymentOk payment newStatus, db2)))))"

subsection \<open>Parents router: \<open>GET /children/attendance\<close>\<close>

text \<open>
  The list the attendance query filters on, or \<open>None\<close> when the parent has no
  children and the handler answers with empty data before it queries. The route is
  guarded by \<open>requireRole(['parent'])\<close>, so the caller is a parent.
\<close>

definition children_attendance_query_ids ::
  "database \<Rightarrow> string \<Rightarrow> string option \<Rightarrow> string list option" where
  "children_attendance_query_ids db pid childId =
     (if children db pid = [] then None
      else Some (if truthy childId then [the childId] else map student_id (children db pid)))"

section \<open>Vocabulary of the statements\<close>

text \<open>
  The lookup order the specification fixes for profile resolution, and the ids held by
  the collection of each role.
\<close>

definition priority_order :: "string list" where
  "priority_order = [''student'', ''teacher'', ''parent'', ''admin'', ''accountant'']"

definition collection_ids :: "database \<Rightarrow> string \<Rightarrow> string list" where
  "collection_ids db role =
     (if role = ''student'' then map student_id (students db)
      else if role = ''teacher'' then map teacher_id (teachers db)
      else if role = ''parent'' then map parent_id (parents db)
      else if role = ''admin'' then map admin_id (admins db)
      else if role = ''accountant'' then map accountant_id (accountants db)
      else [])"

text \<open>
  The provider's public metadata holds no usable role hint: no role at all, or one that
  is none of the five role names when lower-cased.
\<close>

definition no_role_hint :: "clerk_user \<Rightarrow> bool" where
  "no_role_hint clerkUser =
     (case clerk_publicRole clerkUser of
        None \<Rightarrow> True
      | Some role \<Rightarrow> toLowerCase role \<notin> set valid_roles)"

text \<open>The provider path fails: \<open>getAuth\<close> throws or yields no user id.\<close>

definition provider_fails :: "auth_result \<Rightarrow> bool" where
  "provider_fails r = (case r of AuthThrows \<Rightarrow> True | AuthUser uid \<Rightarrow> \<not> truthy uid)"

text \<open>The students whose parent reference is the given profile id.\<close>

definition children_ids :: "database \<Rightarrow> string \<Rightarrow> string set" where
  "children_ids db pid =
     {student_id s |s. s \<in> set (students db) \<and> student_parentId s = Some pid}"

section \<open>Sample data\<close>

text \<open>
  A school with three students, two teachers, two parents, an admin and an accountant.
  Teacher \<open>T1\<close> supervises class 9A (students \<open>S1\<close>, \<open>S2\<close>) and holds a lesson in class
  10A (student \<open>S3\<close>), which \<open>T2\<close> supervises. Parent \<open>P1\<close> has the child \<open>S1\<close>.
\<close>

definition db0 :: database where
  "db0 = \<lparr>students =
       [\<lparr>student_id = ''S1'', student_username = ''alice'', student_name = ''Alice'',
          student_StudentId = ''STU001'', student_parentId = Some ''P1''\<rparr>,
        \<lparr>student_id = ''S2'', student_username = ''bob'', student_name = ''Bob'',
          student_StudentId = ''STU002'', student_parentId = Some ''P2''\<rparr>,
        \<lparr>student_id = ''S3'', student_username = ''carol'', student_name = ''Carol'',
          student_StudentId = ''STU003'', student_parentId = None\<rparr>],
     teachers =
       [\<lparr>teacher_id = ''T1'', teacher_username = ''john'', teacher_name = ''John''\<rparr>,
        \<lparr>teacher_id = ''T2'', teacher_username = ''mary'', teacher_name = ''Mary''\<rparr>],
     parents =
       [\<lparr>parent_id = ''P1'', parent_username = ''jane'', parent_name = ''Jane''\<rparr>,
        \<lparr>parent_id = ''P2'', parent_username = ''paul'', parent_name = ''Paul''\<rparr>],
     admins = [\<lparr>admin_id = ''AD1'', admin_username = ''root''\<rparr>],
     accountants =
       [\<lparr>accountant_id = ''AC1'', accountant_username = ''sarah'',
          accountant_name = ''Sarah''\<rparr>],
     classes =
       [\<lparr>class_id = 1, class_name = ''9A'', class_supervisorId = Some ''T1''\<rparr>,
        \<lparr>class_id = 2, class_name = ''10A'', class_supervisorId = Some ''T2''\<rparr>],
     lessons = [\<lparr>lesson_id = 1, lesson_classId = 2, lesson_teacherId = ''T1''\<rparr>],
     enrollments =
       [\<lparr>enrollment_studentId = ''STU001'', enrollment_classId = 1, enrollment_year = 2024\<rparr>,
        \<lparr>enrollment_studentId = ''STU002'', enrollment_classId = 1, enrollment_year = 2024\<rparr>,
        \<lparr>enrollment_studentId = ''STU003'', enrollment_classId = 2, enrollment_year = 2024\<rparr>],
     fees =
       [\<lparr>fee_id = 1, fee_studentId = ''S1'', fee_totalAmount = 5000, fee_paidAmount = 2500,
          fee_status = PARTIAL, fee_description = ''Tuition'', fee_dueDate = 100,
          fee_createdAt = 10\<rparr>,
        \<lparr>fee_id = 2, fee_studentId = ''S2'', fee_totalAmount = 5000, fee_paidAmount = 0,
          fee_status = OVERDUE, fee_description = ''Tuition'', fee_dueDate = 100,
          fee_createdAt = 11\<rparr>],
     payments = []\<rparr>"

text \<open>The same school, where the id \<open>T1\<close> also names an admin and an accountant.\<close>

definition db_collision :: database where
  "db_collision =
     db0\<lparr>admins := [\<lparr>admin_id = ''T1'', admin_username = ''john_admin''\<rparr>],
         accountants :=
           [\<lparr>accountant_id = ''T1'', accountant_username = ''john_acc'',
              accountant_name = ''John''\<rparr>]\<rparr>"

text \<open>A request before any middleware has run, with the given authorization header.\<close>

definition fresh_request :: "string option \<Rightarrow> request" where
  "fresh_request h =
     \<lparr>req_authorization = h, req_userId = None, req_userRole = None, req_userEmail = None,
      req_signInId = None, req_userProfile = None\<rparr>"

text \<open>A provider user without a role in the public metadata.\<close>

definition clerk_user0 :: clerk_user where
  "clerk_user0 =
     \<lparr>clerk_id = ''E2'', clerk_fullName = Some ''Eve Doe'', clerk_firstName = Some ''Eve'',
      clerk_emailAddresses = [''eve@demo.com''], clerk_primaryEmailAddress = Some ''eve@demo.com'',
      clerk_imageUrl = ''img'', clerk_publicRole = None\<rparr>"

section \<open>Profile resolution: lookup order and the missing profile\<close>

lemma find_priority:
  "find P priority_order =
     (if P ''student'' then Some ''student'' else if P ''teacher'' then Some ''teacher''
      else if P ''parent'' then Some ''parent'' else if P ''admin'' then Some ''admin''
      else if P ''accountant'' then Some ''accountant'' else None)"
  by (simp add: priority_order_def)

lemma find_by_id: "(\<exists>z. find (\<lambda>x. f x = a) xs = Some z) \<longleftrightarrow> a \<in> f ` set xs"
  using find_None_iff [of "\<lambda>x. f x = a" xs] by auto

lemma in_collection:
  "uid \<in> set (collection_ids db r) \<longleftrightarrow> lookup_role db uid r \<noteq> None"
  by (simp add: collection_ids_def lookup_role_def find_by_id)

text \<open>
  C5. \<open>getUserProfile\<close> looks the id up in all five collections; the role it attaches
  is the first one, in the order student, teacher, parent, admin, accountant, whose
  collection holds a row with that id, whatever the other collections hold, and the
  profile is the row found there.
\<close>

theorem getUserProfile_first_match:
  assumes "truthy (req_userId req)"
    and "find (\<lambda>r. the (req_userId req) \<in> set (collection_ids db r)) priority_order = Some r"
  shows "getUserProfile getUser db req =
           Next (req\<lparr>req_userRole := Some r,
                      req_userProfile := lookup_role db (the (req_userId req)) r\<rparr>)
         \<and> lookup_role db (the (req_userId req)) r \<noteq> None"
proof -
  have "find (\<lambda>r. lookup_role db (the (req_userId req)) r \<noteq> None) priority_order = Some r"
    using assms(2) by (simp only: in_collection)
  with assms(1) show ?thesis
    by (auto simp: find_priority getUserProfile_def lookup_role_def attach_def Let_def
      split: option.splits if_splits)
qed

text \<open>
  The id \<open>T1\<close> names a teacher, an admin and an accountant at once: the caller is
  resolved to the teacher.
\<close>

theorem getUserProfile_first_match_witness:
  "truthy (Some ''T1'') \<and>
   find (\<lambda>r. ''T1'' \<in> set (collection_ids db_collision r)) priority_order = Some ''teacher'' \<and>
   ''T1'' \<in> set (collection_ids db_collision ''admin'') \<and>
   ''T1'' \<in> set (collection_ids db_collision ''accountant'') \<and>
   getUserProfile (\<lambda>u. Inr clerk_user0) db_collision
       ((fresh_request None)\<lparr>req_userId := Some ''T1''\<rparr>) =
     Next ((fresh_request None)\<lparr>req_userId := Some ''T1'', req_userRole := Some ''teacher'',
        req_userProfile := Some (TeacherRow
           \<lparr>teacher_id = ''T1'', teacher_username = ''john'', teacher_name = ''John''\<rparr>)\<rparr>)"
proof -
  let ?req = "(fresh_request None)\<lparr>req_userId := Some ''T1''\<rparr>"
  have a: "truthy (req_userId ?req)" by (simp add: truthy_def fresh_request_def)
  have b: "find (\<lambda>r. the (req_userId ?req) \<in> set (collection_ids db_collision r)) priority_order
             = Some ''teacher''"
    by (simp add: priority_order_def collection_ids_def db_collision_def db0_def fresh_request_def)
  show ?thesis
    using getUserProfile_first_match
      [of ?req db_collision "''teacher''" "\<lambda>u. Inr clerk_user0", OF a b] b
    by (simp add: lookup_role_def collection_ids_def db_collision_def db0_def fresh_request_def
        truthy_def)
qed

lemma no_hint_fallback:
  assumes "getUser uid = Inr clerkUser" and "no_role_hint clerkUser"
  shows "clerk_fallback getUser db req uid =
    Reply 404 ''User not found in database. Please contact administrator to add your account.''"
proof (cases "clerk_publicRole clerkUser")
  case None
  with assms show ?thesis by (simp add: clerk_fallback_def truthy_def)
next
  case (Some role)
  with assms have "toLowerCase role \<notin> set valid_roles" by (simp add: no_role_hint_def)
  with Some assms(1) show ?thesis by (simp add: clerk_fallback_def Let_def)
qed

lemma no_match_fallback:
  assumes "truthy (req_userId req)"
    and "list_all (\<lambda>r. the (req_userId req) \<notin> set (collection_ids db r)) priority_order"
  shows "getUserProfile getUser db req = clerk_fallback getUser db req (the (req_userId req))"
proof -
  have "list_all (\<lambda>r. lookup_role db (the (req_userId req)) r = None) priority_order"
    using assms(2) by (simp only: in_collection not_not)
  with assms(1) show ?thesis
    by (simp add: priority_order_def getUserProfile_def lookup_role_def Let_def)
qed

text \<open>
  C6. When the verified id is in none of the five collections and the provider returns
  a user whose public metadata holds no valid role, \<open>getUserProfile\<close> answers 404 with
  the "user not found" message: it hands no request on, so no profile is made up, and
  the answer is not the 401 of a failed authentication.
\<close>

theorem profile_not_found:
  assumes "truthy (req_userId req)"
    and "list_all (\<lambda>r. the (req_userId req) \<notin> set (collection_ids db r)) priority_order"
    and "getUser (the (req_userId req)) = Inr clerkUser"
    and "no_role_hint clerkUser"
  shows "getUserProfile getUser db req =
           Reply 404 ''User not found in database. Please contact administrator to add your account.''
         \<and> (\<forall>req'. getUserProfile getUser db req \<noteq> Next req')
         \<and> (\<forall>msg. getUserProfile getUser db req \<noteq> Reply 401 msg)"
  using assms by (simp add: no_match_fallback no_hint_fallback)

theorem profile_not_found_witness:
  "truthy (Some ''E2'') \<and>
   list_all (\<lambda>r. ''E2'' \<notin> set (collection_ids db0 r)) priority_order \<and>
   no_role_hint clerk_user0 \<and>
   getUserProfile (\<lambda>u. Inr clerk_user0) db0 ((fresh_request None)\<lparr>req_userId := Some ''E2''\<rparr>) =
     Reply 404 ''User not found in database. Please contact administrator to add your account.''"
proof -
  let ?req = "(fresh_request None)\<lparr>req_userId := Some ''E2''\<rparr>"
  have a: "truthy (req_userId ?req)" by (simp add: truthy_def fresh_request_def)
  have b: "list_all (\<lambda>r. the (req_userId ?req) \<notin> set (collection_ids db0 r)) priority_order"
    by (simp add: priority_order_def collection_ids_def db0_def fresh_request_def)
  have c: "(\<lambda>u. Inr clerk_user0) (the (req_userId ?req)) = Inr clerk_user0" by simp
  have d: "no_role_hint clerk_user0" by (simp add: no_role_hint_def clerk_user0_def)
  show ?thesis
    using profile_not_found [where getUser = "\<lambda>u. Inr clerk_user0", OF a b c d] b d
    by (simp add: truthy_def fresh_request_def)
qed

section \<open>Credential verification\<close>

lemma bearer_header:
  "(truthy h \<and> take 7 (the h) = ''Bearer '') \<longleftrightarrow> (\<exists>tok. h = Some (''Bearer '' @ tok))"
proof
  assume a: "truthy h \<and> take 7 (the h) = ''Bearer ''"
  then obtain s where s: "h = Some s" by (cases h) (auto simp: truthy_def)
  with a have "s = ''Bearer '' @ drop 7 s" by (metis append_take_drop_id option.sel)
  with s show "\<exists>tok. h = Some (''Bearer '' @ tok)" by blast
next
  assume "\<exists>tok. h = Some (''Bearer '' @ tok)"
  then show "truthy h \<and> take 7 (the h) = ''Bearer ''" by (auto simp: truthy_def)
qed

lemma requireAuth_no_bearer:
  assumes "\<not> (\<exists>tok. req_authorization req = Some (''Bearer '' @ tok))"
  shows "requireAuth env jwt_verify getAuth req = (Reply 401 ''Authorization header required'', [])"
  using assms bearer_header [of "req_authorization req"]
  by (simp add: requireAuth_def Let_def)

lemma requireAuth_local:
  assumes "req_authorization req = Some (''Bearer '' @ tok)"
    and "jwt_verify tok (jwt_secret env) = Some decoded"
  shows "requireAuth env jwt_verify getAuth req =
     (Next (req\<lparr>req_userId := payload_userId decoded, req_userRole := payload_role decoded,
                req_userEmail := payload_email decoded, req_signInId := payload_signInId decoded\<rparr>),
      [JwtVerify tok])"
  using assms by (simp add: requireAuth_def Let_def truthy_def)

lemma requireAuth_provider:
  assumes "req_authorization req = Some (''Bearer '' @ tok)"
    and "jwt_verify tok (jwt_secret env) = None"
  shows "requireAuth env jwt_verify getAuth req =
     ((case getAuth req of
         AuthThrows \<Rightarrow> Reply 401 ''Invalid authentication token''
       | AuthUser uid \<Rightarrow>
           if truthy uid then Next (req\<lparr>req_userId := uid\<rparr>) else Reply 401 ''Invalid token''),
      [JwtVerify tok, ClerkGetAuth])"
  using assms by (simp add: requireAuth_def Let_def truthy_def split: auth_result.splits)

text \<open>
  C7. \<open>requireAuth\<close> answers 401 exactly when the request carries no bearer credential,
  or the local verification of the token fails and the provider's fails too. When the
  local verification succeeds the request is handed on with the role and user id of
  the signed payload, and the provider is not consulted. The provider is consulted only
  after the local verification of the same token has failed.
\<close>

theorem requireAuth_unauthenticated:
  "((\<exists>msg. fst (requireAuth env jwt_verify getAuth req) = Reply 401 msg) \<longleftrightarrow>
      (\<forall>tok. req_authorization req = Some (''Bearer '' @ tok) \<longrightarrow>
         jwt_verify tok (jwt_secret env) = None \<and> provider_fails (getAuth req)))
   \<and> (\<forall>tok decoded. req_authorization req = Some (''Bearer '' @ tok) \<and>
         jwt_verify tok (jwt_secret env) = Some decoded \<longrightarrow>
         (\<exists>req'. requireAuth env jwt_verify getAuth req = (Next req', [JwtVerify tok]) \<and>
            req_userRole req' = payload_role decoded \<and> req_userId req' = payload_userId decoded))
   \<and> (ClerkGetAuth \<in> set (snd (requireAuth env jwt_verify getAuth req)) \<longrightarrow>
        (\<exists>tok. req_authorization req = Some (''Bearer '' @ tok) \<and>
           jwt_verify tok (jwt_secret env) = None \<and>
           snd (requireAuth env jwt_verify getAuth req) = [JwtVerify tok, ClerkGetAuth]))"
proof (cases "\<exists>tok. req_authorization req = Some (''Bearer '' @ tok)")
  case False
  then show ?thesis
    using requireAuth_no_bearer [where jwt_verify = jwt_verify and getAuth = getAuth, OF False]
    by simp
next
  case True
  then obtain tok where h: "req_authorization req = Some (''Bearer '' @ tok)" by blast
  show ?thesis
  proof (cases "jwt_verify tok (jwt_secret env)")
    case (Some decoded)
    show ?thesis
      using h Some
        requireAuth_local [where jwt_verify = jwt_verify and getAuth = getAuth, OF h Some]
      by simp
  next
    case None
    show ?thesis
      using h None
        requireAuth_provider [where jwt_verify = jwt_verify and getAuth = getAuth, OF h None]
      by (auto simp: provider_fails_def split: auth_result.splits)
  qed
qed

text \<open>
  A token that neither verifier accepts is answered 401 after both were tried, local
  first; a token the local verifier accepts is handed on with the payload's role.
\<close>

theorem requireAuth_unauthenticated_witness:
  "(\<exists>msg. fst (requireAuth None (\<lambda>t s. None) (\<lambda>r. AuthThrows)
              (fresh_request (Some ''Bearer abc''))) = Reply 401 msg)
   \<and> (\<exists>req'. requireAuth None
         (\<lambda>t s. if t = ''abc'' \<and> s = ''your-secret-key''
                 then Some \<lparr>payload_userId = Some ''T1'', payload_email = Some ''j@demo.com'',
                        payload_role = Some ''teacher'', payload_signInId = None\<rparr>
                 else None)
         (\<lambda>r. AuthThrows) (fresh_request (Some ''Bearer abc'')) = (Next req', [JwtVerify ''abc''])
        \<and> req_userRole req' = Some ''teacher'' \<and> req_userId req' = Some ''T1'')"
proof -
  let ?req = "fresh_request (Some ''Bearer abc'')"
  let ?jv = "\<lambda>t s. if t = ''abc'' \<and> s = ''your-secret-key''
                 then Some \<lparr>payload_userId = Some ''T1'', payload_email = Some ''j@demo.com'',
                        payload_role = Some ''teacher'', payload_signInId = None\<rparr>
                 else None"
  have h: "req_authorization ?req = Some (''Bearer '' @ ''abc'')"
    by (simp add: fresh_request_def)
  have s: "jwt_secret None = ''your-secret-key''"
    by (simp add: jwt_secret_def or_else_def truthy_def)
  have 1: "\<exists>msg. fst (requireAuth None (\<lambda>t s. None) (\<lambda>r. AuthThrows) ?req) = Reply 401 msg"
    using requireAuth_unauthenticated
      [where env = None and jwt_verify = "\<lambda>t s. None" and getAuth = "\<lambda>r. AuthThrows" and req = ?req]
    by (simp add: provider_fails_def)
  have 2: "\<exists>req'. requireAuth None ?jv (\<lambda>r. AuthThrows) ?req = (Next req', [JwtVerify ''abc''])
        \<and> req_userRole req' = Some ''teacher'' \<and> req_userId req' = Some ''T1''"
    using requireAuth_unauthenticated
      [where env = None and jwt_verify = ?jv and getAuth = "\<lambda>r. AuthThrows" and req = ?req] h s
    by auto
  from 1 2 show ?thesis by blast
qed

section \<open>Login and payment\<close>

lemma login_ok_cases:
  assumes "login env jwt_sign getUserList verifyPassword body = LoginOk token u"
  shows "\<exists>user rest. getUserList (the (body_email body)) = Inr (user # rest) \<and>
           verifyPassword (clerk_id user) (the (body_password body)) = None \<and>
           token = jwt_sign (jwtPayload user (the (body_email body))) (jwt_secret env) \<and>
           login_role u = or_else (clerk_publicRole user) ''student''"
  using assms
  by (auto simp: login_def login_catch_def Let_def
      split: if_splits sum.splits list.splits option.splits clerk_error.splits)

lemma jwtPayload_role:
  "payload_role (jwtPayload user email) = Some (or_else (clerk_publicRole user) ''student'')"
  by (simp add: jwtPayload_def Let_def)

lemma or_else_truthy: "d \<noteq> [] \<Longrightarrow> truthy (Some (or_else v d))"
  by (cases v) (auto simp: or_else_def truthy_def)

text \<open>
  C9. Every token \<open>POST /login\<close> issues is the signature of a payload with a non-empty
  role. When the provider's public metadata holds no role for the user, that role is
  the literal \<open>student\<close>, and a request bearing the token, once the local verification
  accepts it, is handed on by \<open>requireAuth\<close> with the role \<open>student\<close>.
\<close>

theorem login_token_role:
  assumes "login env jwt_sign getUserList verifyPassword body = LoginOk token u"
  shows "\<exists>user rest. getUserList (the (body_email body)) = Inr (user # rest) \<and>
           token = jwt_sign (jwtPayload user (the (body_email body))) (jwt_secret env) \<and>
           truthy (payload_role (jwtPayload user (the (body_email body)))) \<and>
           (\<not> truthy (clerk_publicRole user) \<longrightarrow>
              payload_role (jwtPayload user (the (body_email body))) = Some ''student'' \<and>
              (\<forall>jwt_verify getAuth req.
                 jwt_verify token (jwt_secret env) = Some (jwtPayload user (the (body_email body))) \<and>
                 req_authorization req = Some (''Bearer '' @ token) \<longrightarrow>
                 (\<exists>req'. requireAuth env jwt_verify getAuth req = (Next req', [JwtVerify token]) \<and>
                    req_userRole req' = Some ''student'')))"
proof -
  from login_ok_cases [OF assms] obtain user rest where
    1: "getUserList (the (body_email body)) = Inr (user # rest)" and
    2: "token = jwt_sign (jwtPayload user (the (body_email body))) (jwt_secret env)" by blast
  let ?p = "jwtPayload user (the (body_email body))"
  have 3: "truthy (payload_role ?p)" by (simp add: jwtPayload_role or_else_truthy)
  have 4: "payload_role ?p = Some ''student''" if "\<not> truthy (clerk_publicRole user)"
    using that by (simp add: jwtPayload_role or_else_def)
  have 5: "\<exists>req'. requireAuth env jwt_verify getAuth req = (Next req', [JwtVerify token]) \<and>
                    req_userRole req' = Some ''student''"
    if "\<not> truthy (clerk_publicRole user)" "jwt_verify token (jwt_secret env) = Some ?p"
       "req_authorization req = Some (''Bearer '' @ token)" for jwt_verify getAuth req
    using requireAuth_local [where jwt_verify = jwt_verify and getAuth = getAuth, OF that(3) that(2)]
      4 [OF that(1)] by simp
  from 1 2 3 4 5 show ?thesis by blast
qed

lemma update_distinct:
  assumes "distinct (map k xs)" and "find (\<lambda>f. k f = a \<and> Q f) xs = Some x"
  shows "\<exists>i<length xs. xs ! i = x \<and> k x = a \<and> Q x \<and>
           map (\<lambda>f. if k f = a then g f else f) xs = xs[i := g x]"
  using assms
proof (induction xs)
  case Nil
  then show ?case by simp
next
  case (Cons y ys)
  show ?case
  proof (cases "k y = a")
    case True
    with Cons.prems(1) have "a \<notin> k ` set ys" by simp
    then have no: "\<forall>f\<in>set ys. k f \<noteq> a" by blast
    then have "find (\<lambda>f. k f = a \<and> Q f) ys = None" by (auto simp: find_None_iff)
    with Cons.prems(2) True have yx: "y = x" "Q x" by (auto split: if_splits)
    from no have "map (\<lambda>f. if k f = a then g f else f) ys = ys" by (induction ys) auto
    with True yx have "(y # ys) ! 0 = x \<and> k x = a \<and> Q x \<and>
        map (\<lambda>f. if k f = a then g f else f) (y # ys) = (y # ys)[0 := g x]" by simp
    then show ?thesis by blast
  next
    case False
    with Cons.prems have "distinct (map k ys)" "find (\<lambda>f. k f = a \<and> Q f) ys = Some x" by auto
    from Cons.IH [OF this] obtain i where
      i: "i < length ys" "ys ! i = x" "k x = a" "Q x"
         "map (\<lambda>f. if k f = a then g f else f) ys = ys[i := g x]" by blast
    with False have "Suc i < length (y # ys) \<and> (y # ys) ! Suc i = x \<and> k x = a \<and> Q x \<and>
        map (\<lambda>f. if k f = a then g f else f) (y # ys) = (y # ys)[Suc i := g x]" by simp
    then show ?thesis by blast
  qed
qed

text \<open>
  C10. After a payment that \<open>POST /payment\<close> accepts, exactly one row of the fee table
  has changed: the fee found for the caller, whose paid amount is the previous one plus
  the amount and whose status is \<open>PAID\<close> when the new paid amount reaches the total and
  \<open>PARTIAL\<close> otherwise (never \<open>UNPAID\<close> or \<open>OVERDUE\<close>), whatever its status was; its
  other fields are as before. Fee ids are the table's primary key.
\<close>

theorem post_payment_updates_fee:
  assumes "post_payment db userRole pid body = (PaymentOk p newStatus, db')"
    and "distinct (map fee_id (fees db))"
  shows "\<exists>fee amount i.
           payment_fee db userRole pid (body_feeId body) = Some fee \<and>
           body_amount body = Some amount \<and>
           i < length (fees db) \<and> fees db ! i = fee \<and> fee_id fee = body_feeId body \<and>
           newStatus = (if fee_paidAmount fee + amount \<ge> fee_totalAmount fee then PAID else PARTIAL) \<and>
           newStatus \<noteq> UNPAID \<and> newStatus \<noteq> OVERDUE \<and>
           fees db' = (fees db)[i := fee\<lparr>fee_paidAmount := fee_paidAmount fee + amount,
                                         fee_status := newStatus\<rparr>] \<and>
           payments db' = payments db @ [p] \<and> payment_amount p = amount \<and>
           payment_feeId p = body_feeId body \<and> students db' = students db"
proof -
  from assms(1) obtain fee amount where
    f: "payment_fee db userRole pid (body_feeId body) = Some fee" and
    a: "body_amount body = Some amount"
    by (auto simp: post_payment_def split: if_splits option.splits)
  let ?st = "if fee_paidAmount fee + amount \<ge> fee_totalAmount fee then PAID else PARTIAL"
  let ?g = "\<lambda>f. f\<lparr>fee_paidAmount := fee_paidAmount fee + amount, fee_status := ?st\<rparr>"
  from assms(1) f a have st: "newStatus = ?st"
    and db': "fees db' = map (\<lambda>f. if fee_id f = body_feeId body then ?g f else f) (fees db)"
    and rest: "payments db' = payments db @ [p]" "payment_amount p = amount"
      "payment_feeId p = body_feeId body" "students db' = students db"
    by (auto simp: post_payment_def Let_def split: if_splits)
  from f obtain Q where "find (\<lambda>f. fee_id f = body_feeId body \<and> Q f) (fees db) = Some fee"
    by (auto simp: payment_fee_def split: if_splits)
  from update_distinct [OF assms(2) this, of ?g] obtain i where
    i: "i < length (fees db)" "fees db ! i = fee" "fee_id fee = body_feeId body"
       "map (\<lambda>f. if fee_id f = body_feeId body then ?g f else f) (fees db) = (fees db)[i := ?g fee]"
    by blast
  from f a i st db' rest show ?thesis by auto
qed

text \<open>A student pays 100 on an overdue fee of 5000: the fee becomes \<open>PARTIAL\<close>.\<close>

theorem post_payment_updates_fee_witness:
  "distinct (map fee_id (fees db0)) \<and>
   fst (post_payment db0 (Some ''student'') ''S2''
          \<lparr>body_feeId = 2, body_amount = Some 100, body_method = ''CASH'', body_reference = ''r1''\<rparr>)
     = PaymentOk \<lparr>payment_amount = 100, payment_method = ''CASH'', payment_reference = ''r1'',
                   payment_feeId = 2\<rparr> PARTIAL \<and>
   (\<exists>i<length (fees db0). fee_status (fees db0 ! i) = OVERDUE \<and>
      fees (snd (post_payment db0 (Some ''student'') ''S2''
          \<lparr>body_feeId = 2, body_amount = Some 100, body_method = ''CASH'', body_reference = ''r1''\<rparr>))
        = (fees db0)[i := (fees db0 ! i)\<lparr>fee_paidAmount := 100, fee_status := PARTIAL\<rparr>])"
proof -
  let ?b = "\<lparr>body_feeId = 2, body_amount = Some 100, body_method = ''CASH'', body_reference = ''r1''\<rparr>"
  let ?p = "\<lparr>payment_amount = 100, payment_method = ''CASH'', payment_reference = ''r1'',
             payment_feeId = 2\<rparr>"
  let ?r = "post_payment db0 (Some ''student'') ''S2'' ?b"
  have d: "distinct (map fee_id (fees db0))" by (simp add: db0_def)
  have f: "fst ?r = PaymentOk ?p PARTIAL"
    by (simp add: post_payment_def payment_fee_def requireRole_def truthy_def db0_def Let_def)
  then have e: "?r = (PaymentOk ?p PARTIAL, snd ?r)" by (simp add: prod_eq_iff)
  from post_payment_updates_fee [OF e d] obtain fee amount i where
    1: "payment_fee db0 (Some ''student'') ''S2'' (body_feeId ?b) = Some fee"
      "body_amount ?b = Some amount" "i < length (fees db0)" "fees db0 ! i = fee"
      "fees (snd ?r) = (fees db0)[i := fee\<lparr>fee_paidAmount := fee_paidAmount fee + amount,
                                         fee_status := PARTIAL\<rparr>]"
    by blast
  from 1(1) have "fee_paidAmount fee = 0" "fee_status fee = OVERDUE"
    by (auto simp: payment_fee_def db0_def)
  with 1 have "i < length (fees db0) \<and> fee_status (fees db0 ! i) = OVERDUE \<and>
      fees (snd ?r) = (fees db0)[i := (fees db0 ! i)\<lparr>fee_paidAmount := 100, fee_status := PARTIAL\<rparr>]"
    by simp
  with d f show ?thesis by blast
qed

text \<open>A user without a role at the provider logs in and then calls with the token.\<close>

theorem login_token_role_witness:
  "login None (\<lambda>p s. ''tok'') (\<lambda>e. Inr [clerk_user0]) (\<lambda>u p. None)
      \<lparr>body_email = Some ''eve@demo.com'', body_password = Some ''pw''\<rparr>
     = LoginOk ''tok'' \<lparr>login_id = ''E2'', login_name = ''Eve Doe'',
          login_email = Some ''eve@demo.com'', login_role = ''student'', login_imageUrl = ''img''\<rparr>
   \<and> (\<exists>req'. requireAuth None
          (\<lambda>t s. if t = ''tok'' \<and> s = ''your-secret-key''
                  then Some (jwtPayload clerk_user0 ''eve@demo.com'') else None)
          (\<lambda>r. AuthThrows) (fresh_request (Some ''Bearer tok'')) = (Next req', [JwtVerify ''tok''])
        \<and> req_userRole req' = Some ''student'')"
proof -
  let ?body = "\<lparr>body_email = Some ''eve@demo.com'', body_password = Some ''pw''\<rparr>"
  let ?u = "\<lparr>login_id = ''E2'', login_name = ''Eve Doe'',
          login_email = Some ''eve@demo.com'', login_role = ''student'', login_imageUrl = ''img''\<rparr>"
  let ?jv = "\<lambda>t s. if t = ''tok'' \<and> s = ''your-secret-key''
                  then Some (jwtPayload clerk_user0 ''eve@demo.com'') else None"
  have l: "login None (\<lambda>p s. ''tok'') (\<lambda>e. Inr [clerk_user0]) (\<lambda>u p. None) ?body = LoginOk ''tok'' ?u"
    by (simp add: login_def Let_def truthy_def or_else_def clerk_user0_def)
  have s: "jwt_secret None = ''your-secret-key''"
    by (simp add: jwt_secret_def or_else_def truthy_def)
  have n: "\<not> truthy (clerk_publicRole clerk_user0)" by (simp add: truthy_def clerk_user0_def)
  have h: "req_authorization (fresh_request (Some ''Bearer tok'')) = Some (''Bearer '' @ ''tok'')"
    by (simp add: fresh_request_def)
  from login_token_role [OF l] n s h
  have "\<exists>req'. requireAuth None ?jv (\<lambda>r. AuthThrows) (fresh_request (Some ''Bearer tok''))
           = (Next req', [JwtVerify ''tok'']) \<and> req_userRole req' = Some ''student''"
    by auto
  with l show ?thesis by blast
qed

section \<open>Access scope of the routes\<close>

lemmas scope_defs =
  history_targetStudentIds_def history_query_ids_def get_history_def
  results_targetStudentIds_def results_query_ids_def summary_targetStudentIds_def
  children_def supervised_classes_def class_students_def enrollment_student_def
  children_attendance_query_ids_def truthy_def

text \<open>
  C1. A student caller's own list \<open>targetStudentIds\<close> is the singleton of the profile
  id, but the fee and the result queries filter on the requested id whenever one is
  supplied. Student \<open>S1\<close> asking \<open>GET /history?studentId=S2\<close> is answered with the fee
  of \<open>S2\<close>; without the parameter, with the own fee. The claim that the parameter never
  changes what a student reads does not hold of these two routes.
\<close>

theorem student_query_follows_requested_id:
  "history_targetStudentIds db0 (Some ''student'') ''S1'' (Some ''S2'') = [''S1''] \<and>
   history_query_ids db0 (Some ''student'') ''S1'' (Some ''S2'') = Some [''S2''] \<and>
   map fee_id (get_history db0 (Some ''student'') ''S1'' (Some ''S2'')) = [2] \<and>
   map fee_id (get_history db0 (Some ''student'') ''S1'' None) = [1] \<and>
   results_query_ids db0 (Some ''student'') ''S1'' (Some ''S2'') = Some [''S2'']"
  by (simp add: scope_defs db0_def)

text \<open>
  C3. Teacher \<open>T1\<close> supervises class 9A and holds a lesson in class 10A, where \<open>S3\<close> is
  enrolled. The teachers router lists both classes with their students; the exam
  results and the attendance summary compute the teacher's students from the supervised
  classes alone, so \<open>S3\<close> is missing there (and the summary collects the enrollments'
  \<open>StudentId\<close> values, not student ids).
\<close>

theorem teacher_scope_supervised_only:
  "results_targetStudentIds db0 (Some ''teacher'') ''T1'' None = [''S1'', ''S2''] \<and>
   summary_targetStudentIds db0 (Some ''teacher'') ''T1'' = [''STU001'', ''STU002''] \<and>
   map (\<lambda>(c, ss). (class_name c, map (map_option student_id) ss)) (get_teacher_classes db0 ''T1'')
     = [(''9A'', [Some ''S1'', Some ''S2'']), (''10A'', [Some ''S3''])]"
  by (simp add: scope_defs teacher_classes_def get_teacher_classes_def db0_def)

text \<open>
  C4, as stated, fails for the accountant: in the exam results and the attendance
  summary an accountant's list of accessible students is empty, with or without a
  requested id, although the school has students.
\<close>

theorem accountant_scope_counterexample:
  "map student_id (students db0) = [''S1'', ''S2'', ''S3''] \<and>
   results_targetStudentIds db0 (Some ''accountant'') ''AC1'' None = [] \<and>
   results_targetStudentIds db0 (Some ''accountant'') ''AC1'' (Some ''S1'') = [] \<and>
   summary_targetStudentIds db0 (Some ''accountant'') ''AC1'' = []"
  by (simp add: scope_defs db0_def)

text \<open>
  C4, amended. In \<open>GET /history\<close> of the fees router, for an admin and for an accountant,
  and in \<open>GET /results\<close> of the exams router, for an admin, the accessible students are
  all student ids when no id is requested and exactly the requested id otherwise,
  whether or not a student has it. The attendance summary takes no student id and
  gives an admin all student ids. An accountant's list is empty in the exam results and
  in the attendance summary.
\<close>

theorem admin_accountant_scope:
  "(userRole = Some ''admin'' \<or> userRole = Some ''accountant'' \<longrightarrow>
      history_targetStudentIds db userRole pid studentId =
        (if truthy studentId then [the studentId] else map student_id (students db)))
   \<and> results_targetStudentIds db (Some ''admin'') pid studentId =
        (if truthy studentId then [the studentId] else map student_id (students db))
   \<and> summary_targetStudentIds db (Some ''admin'') pid = map student_id (students db)
   \<and> results_targetStudentIds db (Some ''accountant'') pid studentId = []
   \<and> summary_targetStudentIds db (Some ''accountant'') pid = []"
  by (auto simp: history_targetStudentIds_def results_targetStudentIds_def
      summary_targetStudentIds_def)

text \<open>
  An accountant asking for the unknown id \<open>S9\<close> gets the scope \<open>[S9]\<close>; without an id,
  all three students.
\<close>

theorem admin_accountant_scope_witness:
  "history_targetStudentIds db0 (Some ''accountant'') ''AC1'' (Some ''S9'') = [''S9''] \<and>
   ''S9'' \<notin> set (map student_id (students db0)) \<and>
   history_targetStudentIds db0 (Some ''accountant'') ''AC1'' None = [''S1'', ''S2'', ''S3''] \<and>
   results_targetStudentIds db0 (Some ''admin'') ''AD1'' None = [''S1'', ''S2'', ''S3''] \<and>
   results_targetStudentIds db0 (Some ''admin'') ''AD1'' (Some ''S9'') = [''S9'']"
  using admin_accountant_scope [of "Some ''accountant''" db0 "''AC1''" "Some ''S9''"]
    admin_accountant_scope [of "Some ''accountant''" db0 "''AC1''" None]
    admin_accountant_scope [of "Some ''admin''" db0 "''AD1''" None]
    admin_accountant_scope [of "Some ''admin''" db0 "''AD1''" "Some ''S9''"]
  by (simp add: truthy_def db0_def)

text \<open>
  C8. The list of accessible students is a function of the role, the profile id, the
  requested id and the relationship data (students, classes, enrollments) alone: on two
  stores that agree on these tables, in particular on the same store read twice, the
  three routes compute the same list.
\<close>

theorem scope_determined_by_relationship_data:
  assumes "students db' = students db" and "classes db' = classes db"
    and "enrollments db' = enrollments db"
  shows "history_targetStudentIds db' userRole pid studentId =
           history_targetStudentIds db userRole pid studentId
       \<and> results_targetStudentIds db' userRole pid studentId =
           results_targetStudentIds db userRole pid studentId
       \<and> summary_targetStudentIds db' userRole pid = summary_targetStudentIds db userRole pid"
  using assms
  by (simp add: history_targetStudentIds_def results_targetStudentIds_def
      summary_targetStudentIds_def children_def supervised_classes_def class_students_def
      enrollment_student_def)

text \<open>Recording a payment changes the fees, not the scope computed afterwards.\<close>

theorem scope_determined_by_relationship_data_witness:
  "fees (snd (post_payment db0 (Some ''student'') ''S2''
       \<lparr>body_feeId = 2, body_amount = Some 100, body_method = ''CASH'', body_reference = ''r1''\<rparr>))
     \<noteq> fees db0 \<and>
   history_targetStudentIds (snd (post_payment db0 (Some ''student'') ''S2''
       \<lparr>body_feeId = 2, body_amount = Some 100, body_method = ''CASH'', body_reference = ''r1''\<rparr>))
       (Some ''parent'') ''P1'' None = [''S1''] \<and>
   summary_targetStudentIds (snd (post_payment db0 (Some ''student'') ''S2''
       \<lparr>body_feeId = 2, body_amount = Some 100, body_method = ''CASH'', body_reference = ''r1''\<rparr>))
       (Some ''teacher'') ''T1'' = [''STU001'', ''STU002'']"
proof -
  let ?db = "snd (post_payment db0 (Some ''student'') ''S2''
       \<lparr>body_feeId = 2, body_amount = Some 100, body_method = ''CASH'', body_reference = ''r1''\<rparr>)"
  have eq: "students ?db = students db0" "classes ?db = classes db0"
    "enrollments ?db = enrollments db0"
    by (simp_all add: post_payment_def payment_fee_def requireRole_def truthy_def db0_def Let_def)
  have ne: "fees ?db \<noteq> fees db0"
    by (simp add: post_payment_def payment_fee_def requireRole_def truthy_def db0_def Let_def)
  have "history_targetStudentIds db0 (Some ''parent'') ''P1'' None = [''S1'']"
    "summary_targetStudentIds db0 (Some ''teacher'') ''T1'' = [''STU001'', ''STU002'']"
    by (simp_all add: scope_defs db0_def)
  with ne show ?thesis
    using scope_determined_by_relationship_data [OF eq, of "Some ''parent''" "''P1''" None]
      scope_determined_by_relationship_data [OF eq, of "Some ''teacher''" "''T1''" None]
    by simp
qed

lemma children_ids_set: "children_ids db pid = set (map student_id (children db pid))"
  by (auto simp: children_ids_def children_def)

text \<open>
  C2, as stated, fails: parent \<open>P1\<close>, whose only child is \<open>S1\<close>, pays on the fee of
  \<open>S2\<close> and is answered 404, not 403; and \<open>GET /children/attendance?childId=S2\<close> is not
  rejected at all, its query filters on \<open>S2\<close>.
\<close>

theorem parent_forbidden_counterexample:
  "''S2'' \<notin> set (map student_id (children db0 ''P1'')) \<and>
   post_payment db0 (Some ''parent'') ''P1''
      \<lparr>body_feeId = 2, body_amount = Some 100, body_method = ''CASH'', body_reference = ''r1''\<rparr>
     = (PaymentError 404 ''Fee not found or access denied'', db0) \<and>
   children_attendance_query_ids db0 ''P1'' (Some ''S2'') = Some [''S2'']"
  by (simp add: scope_defs post_payment_def payment_fee_def requireRole_def db0_def)

text \<open>
  C2, amended. For a parent caller the accessible students computed by the fee
  history, the exam results and the attendance summary are exactly the ids of the
  students whose parent reference is the caller's profile id. A payment naming a fee
  that belongs to no such student is answered 404 "Fee not found or access denied", and
  the store is left as it was.
\<close>

theorem parent_scope_and_payment:
  "set (history_targetStudentIds db (Some ''parent'') pid studentId) = children_ids db pid
   \<and> set (results_targetStudentIds db (Some ''parent'') pid studentId) = children_ids db pid
   \<and> set (summary_targetStudentIds db (Some ''parent'') pid) = children_ids db pid
   \<and> ((\<forall>f\<in>set (fees db). fee_id f = body_feeId body \<longrightarrow> fee_studentId f \<notin> children_ids db pid)
        \<longrightarrow> post_payment db (Some ''parent'') pid body =
              (PaymentError 404 ''Fee not found or access denied'', db))"
proof -
  have "payment_fee db (Some ''parent'') pid (body_feeId body) = None"
    if "\<forall>f\<in>set (fees db). fee_id f = body_feeId body \<longrightarrow> fee_studentId f \<notin> children_ids db pid"
    using that by (auto simp: payment_fee_def find_None_iff children_ids_set)
  then show ?thesis
    by (simp add: children_ids_set history_targetStudentIds_def results_targetStudentIds_def
      summary_targetStudentIds_def post_payment_def requireRole_def truthy_def)
qed

theorem parent_scope_and_payment_witness:
  "children_ids db0 ''P1'' = {''S1''} \<and>
   set (history_targetStudentIds db0 (Some ''parent'') ''P1'' (Some ''S2'')) = {''S1''} \<and>
   post_payment db0 (Some ''parent'') ''P1''
      \<lparr>body_feeId = 2, body_amount = Some 100, body_method = ''CASH'', body_reference = ''r1''\<rparr>
     = (PaymentError 404 ''Fee not found or access denied'', db0)"
proof -
  let ?b = "\<lparr>body_feeId = 2, body_amount = Some 100, body_method = ''CASH'',
              body_reference = ''r1''\<rparr>"
  have c: "children_ids db0 ''P1'' = {''S1''}"
    by (simp add: children_ids_set children_def db0_def)
  then have "\<forall>f\<in>set (fees db0). fee_id f = body_feeId ?b \<longrightarrow> fee_studentId f \<notin> children_ids db0 ''P1''"
    by (simp add: db0_def)
  with c show ?thesis
    using parent_scope_and_payment [of db0 "''P1''" "Some ''S2''" ?b] by simp
qed

end
